theory Spec2Isabelle
  imports Complex_Main
begin

section \<open>Data model of \<open>evident/diversity_handler.py\<close>\<close>

text \<open>
  Sample identifiers and column names are Python strings. The exceptions the code can raise
  are values: \<open>ValueError\<close>, \<open>TypeError\<close> and \<open>KeyError\<close> are the built-in exceptions the
  source raises or the interpreter raises for it; the remaining constructors are the classes
  of \<open>evident.exceptions\<close> that the source imports (\<open>NoSamplesError\<close>) or that the tests
  name (\<open>WrongPowerArguments\<close>, \<open>NonCategoricalColumnError\<close>, \<open>OnlyOneCategoryError\<close>), each
  carrying its message.
\<close>

type_synonym sample_id = string

datatype error =
    ValueError string
  | TypeError string
  | KeyError "string list"
  | NoSamplesError
  | WrongPowerArguments string
  | NonCategoricalColumnError string
  | OnlyOneCategoryError string

text \<open>
  A pandas column has a dtype and a list of cells, one per row. \<open>NaN\<close> is the missing
  value; \<open>Series.unique()\<close> keeps it as a value of its own.
\<close>

datatype dtype = Dtype_object | Dtype_int64 | Dtype_float64 | Dtype_bool

datatype cell = Str string | Num int | NaN

record column =
  col_dtype :: dtype
  col_values :: "cell list"

text \<open>
  A \<open>pd.Series\<close> is an index of labels with one value per label, a \<open>pd.DataFrame\<close> an
  index of labels with named columns. Labels may repeat.
\<close>

record 'v series =
  s_index :: "sample_id list"
  s_values :: "'v list"

record dataframe =
  df_index :: "sample_id list"
  df_columns :: "(string \<times> column) list"

text \<open>
  \<open>BaseDiversityHandler\<close> keeps whatever \<open>data\<close> it is given (a series of alpha-diversity
  values for \<open>AlphaDiversityHandler\<close>) and the metadata table.
\<close>

record 'd handler =
  h_data :: 'd
  h_metadata :: dataframe

section \<open>Label-based selection\<close>

text \<open>
  \<open>obj.loc[labels]\<close> with a list-like of labels returns, for each label in turn, every row
  carrying that label, and raises \<open>KeyError\<close> when a label is not in the index.
  \<open>take_labels idx labels vals\<close> picks from \<open>vals\<close> (aligned with the index \<open>idx\<close>) the
  entries of the selected rows.
\<close>

definition take_labels :: "sample_id list \<Rightarrow> sample_id list \<Rightarrow> 'a list \<Rightarrow> 'a list" where
  "take_labels idx labels vals =
     concat (map (\<lambda>l. map snd (filter (\<lambda>p. fst p = l) (zip idx vals))) labels)"

definition missing_labels :: "sample_id list \<Rightarrow> sample_id list \<Rightarrow> sample_id list" where
  "missing_labels idx labels = filter (\<lambda>l. l \<notin> set idx) labels"

definition series_loc :: "'v series \<Rightarrow> sample_id list \<Rightarrow> error + 'v series" where
  "series_loc s labels =
     (if missing_labels (s_index s) labels \<noteq> [] then Inl (KeyError (missing_labels (s_index s) labels))
      else Inr \<lparr> s_index = take_labels (s_index s) labels (s_index s),
                 s_values = take_labels (s_index s) labels (s_values s) \<rparr>)"

definition column_loc :: "sample_id list \<Rightarrow> sample_id list \<Rightarrow> column \<Rightarrow> column" where
  "column_loc idx labels c = c \<lparr> col_values := take_labels idx labels (col_values c) \<rparr>"

definition dataframe_loc :: "dataframe \<Rightarrow> sample_id list \<Rightarrow> error + dataframe" where
  "dataframe_loc df labels =
     (if missing_labels (df_index df) labels \<noteq> [] then Inl (KeyError (missing_labels (df_index df) labels))
      else Inr \<lparr> df_index = take_labels (df_index df) labels (df_index df),
                 df_columns = map (\<lambda>(name, c). (name, column_loc (df_index df) labels c))
                                  (df_columns df) \<rparr>)"

text \<open>
  \<open>set(a).intersection(set(b))\<close>. A Python set has no specified iteration order; the model
  lists the common labels once each, in the order of their first occurrence in \<open>a\<close>. The
  results below depend only on the set of labels.
\<close>

definition set_intersection :: "sample_id list \<Rightarrow> sample_id list \<Rightarrow> sample_id list" where
  "set_intersection a b = rev (remdups (rev (filter (\<lambda>l. l \<in> set b) a)))"

section \<open>\<open>BaseDiversityHandler\<close> and \<open>AlphaDiversityHandler\<close>\<close>

text \<open>\<open>BaseDiversityHandler.samples\<close>: the metadata index as a list.\<close>

definition samples :: "'d handler \<Rightarrow> sample_id list" where
  "samples h = df_index (h_metadata h)"

text \<open>
  \<open>AlphaDiversityHandler.__init__\<close>: both inputs are restricted with \<open>.loc\<close> to the labels
  they have in common.
\<close>

definition AlphaDiversityHandler_init ::
  "'v series \<Rightarrow> dataframe \<Rightarrow> error + 'v series handler" where
  "AlphaDiversityHandler_init data metadata =
     (let samps_in_common = set_intersection (df_index metadata) (s_index data) in
      case series_loc data samps_in_common of
        Inl e \<Rightarrow> Inl e
      | Inr d \<Rightarrow>
          (case dataframe_loc metadata samps_in_common of
             Inl e \<Rightarrow> Inl e
           | Inr m \<Rightarrow> Inr \<lparr> h_data = d, h_metadata = m \<rparr>))"

text \<open>
  \<open>Series.unique()\<close>: the distinct cells in order of first appearance, \<open>NaN\<close> included.
\<close>

definition unique :: "cell list \<Rightarrow> cell list" where
  "unique xs = rev (remdups (rev xs))"

text \<open>
  The result of \<open>_incept_power_solve_function\<close> is a \<open>functools.partial\<close>: a solver with
  some keyword arguments bound. \<open>TTIndSolvePower nobs1 ratio\<close> is
  \<open>partial(tt_ind_solve_power, nobs1=..., ratio=...)\<close> and \<open>FTestAnovaSolvePower k_groups nobs\<close>
  is \<open>partial(FTestAnovaPower().solve_power, k_groups=..., nobs=...)\<close>. An argument bound to
  Python's \<open>None\<close> is \<open>None\<close> here. \<open>total_observations / 2\<close> is true division; its value is
  the exact quotient (which the float result equals for every count below \<open>2 ^ 53\<close>).
\<close>

datatype power_func =
    TTIndSolvePower "rat option" rat
  | FTestAnovaSolvePower nat "int option"

text \<open>
  As the file stands, a comma is missing after \<open>tt_ind_solve_power\<close> in the first
  \<open>partial(...)\<close> call and after \<open>difference: float = None\<close> in the parameter list of
  \<open>AlphaDiversityHandler.power_analysis\<close>. The model reads both lists with the comma in
  place.

  \<open>self.metadata[column]\<close> raises \<open>KeyError\<close> for an unknown column name.
\<close>

definition get_column :: "dataframe \<Rightarrow> string \<Rightarrow> error + column" where
  "get_column df name =
     (case map_of (df_columns df) name of
        None \<Rightarrow> Inl (KeyError [name])
      | Some c \<Rightarrow> Inr c)"

definition incept_power_solve_function ::
  "'d handler \<Rightarrow> string \<Rightarrow> int option \<Rightarrow> error + power_func" where
  "incept_power_solve_function self column_name total_observations =
     (case get_column (h_metadata self) column_name of
        Inl e \<Rightarrow> Inl e
      | Inr c \<Rightarrow>
          if col_dtype c \<noteq> Dtype_object then Inl (ValueError ''Column must be of dtype object!'')
          else
            let column_choices = unique (col_values c);
                num_choices = length column_choices
            in if num_choices = 1 then Inl (ValueError ''Only one column value!'')
               else if num_choices = 2 then
                 Inr (TTIndSolvePower
                        (case total_observations of
                           None \<Rightarrow> None
                         | Some n \<Rightarrow> Some (of_int n / 2))
                        1)
               else Inr (FTestAnovaSolvePower num_choices total_observations))"

text \<open>
  \<open>AlphaDiversityHandler.power_analysis\<close> calls \<open>self._incept_power_solve_function\<close> with the
  keyword arguments \<open>column\<close> and \<open>total_observation\<close>. Python binds keyword arguments by
  name before the callee's body runs and raises \<open>TypeError\<close> for a keyword that is not a
  parameter of the callee. After the call the method ends in a bare \<open>return\<close>, whose value
  is \<open>None\<close>.
\<close>

definition incept_power_solve_function_params :: "string list" where
  "incept_power_solve_function_params = [''column'', ''total_observations'']"

definition unexpected_keywords :: "string list \<Rightarrow> string list \<Rightarrow> string list" where
  "unexpected_keywords params keywords = filter (\<lambda>k. k \<notin> set params) keywords"

definition power_analysis ::
  "'v series handler \<Rightarrow> string \<Rightarrow> int option \<Rightarrow> rat option \<Rightarrow> rat option \<Rightarrow> rat option
     \<Rightarrow> error + rat option" where
  "power_analysis self column_name total_observations difference alpha power_arg =
     (case unexpected_keywords incept_power_solve_function_params
             [''column'', ''total_observation''] of
        k # ks \<Rightarrow>
          Inl (TypeError (''_incept_power_solve_function() got an unexpected keyword argument ''
                 @ [CHR 0x27] @ k @ [CHR 0x27]))
      | [] \<Rightarrow>
          (case incept_power_solve_function self column_name total_observations of
             Inl e \<Rightarrow> Inl e
           | Inr power_func \<Rightarrow> Inr None))"

section \<open>The thresholds of \<open>evident/q2/_methods.py\<close>\<close>

text \<open>
  The defaults of the parameters \<open>max_levels_per_category\<close> and \<open>min_count_per_level\<close> of
  \<open>alpha_power_analysis\<close> and \<open>beta_power_analysis\<close>.
\<close>

definition default_max_levels_per_category :: nat where
  "default_max_levels_per_category = 5"

definition default_min_count_per_level :: nat where
  "default_min_count_per_level = 3"

text \<open>The number of rows of a column that carry a given category.\<close>

definition level_count :: "column \<Rightarrow> cell \<Rightarrow> nat" where
  "level_count c v = length (filter (\<lambda>x. x = v) (col_values c))"

section \<open>Subsetting\<close>

text \<open>
  Modelled from the spec: \<open>subset_values\<close> is called by the tests but is not defined in
  \<open>diversity_handler.py\<close>. For the alpha handler it returns only the diversity values of the
  given sample ids, and fails with \<open>NoSamplesError\<close> if the resulting subset is empty.
\<close>

definition subset_values :: "'v series handler \<Rightarrow> sample_id list \<Rightarrow> error + 'v series" where
  "subset_values self sample_ids =
     (let kept = filter (\<lambda>p. fst p \<in> set sample_ids)
                   (zip (s_index (h_data self)) (s_values (h_data self)))
      in if kept = [] then Inl NoSamplesError
         else Inr \<lparr> s_index = map fst kept, s_values = map snd kept \<rparr>)"

text \<open>
  Modelled from the spec: \<open>BetaDiversityHandler\<close> is commented out in \<open>diversity_handler.py\<close>
  and its \<open>subset_values\<close> is absent. Its data is a distance matrix: a list of sample ids and
  a square table of pairwise distances whose rows and columns both follow that list.
  Subsetting keeps the given sample ids on both axes, and fails with \<open>NoSamplesError\<close> if
  nothing is left.
\<close>

record 'v distance_matrix =
  dm_ids :: "sample_id list"
  dm_data :: "'v list list"

definition square :: "'v distance_matrix \<Rightarrow> bool" where
  "square dm = (length (dm_data dm) = length (dm_ids dm)
                 \<and> list_all (\<lambda>row. length row = length (dm_ids dm)) (dm_data dm))"

definition symmetric :: "'v distance_matrix \<Rightarrow> bool" where
  "symmetric dm =
     list_all (\<lambda>i. list_all (\<lambda>j. dm_data dm ! i ! j = dm_data dm ! j ! i)
                      [0..<length (dm_ids dm)])
              [0..<length (dm_ids dm)]"

definition kept_positions :: "sample_id list \<Rightarrow> sample_id list \<Rightarrow> nat list" where
  "kept_positions ids sample_ids = filter (\<lambda>i. ids ! i \<in> set sample_ids) [0..<length ids]"

definition beta_subset_values ::
  "'v distance_matrix handler \<Rightarrow> sample_id list \<Rightarrow> error + 'v distance_matrix" where
  "beta_subset_values self sample_ids =
     (let ps = kept_positions (dm_ids (h_data self)) sample_ids
      in if ps = [] then Inl NoSamplesError
         else Inr \<lparr> dm_ids = map (\<lambda>i. dm_ids (h_data self) ! i) ps,
                    dm_data = map (\<lambda>i. map (\<lambda>j. dm_data (h_data self) ! i ! j) ps) ps \<rparr>)"

section \<open>A small data set\<close>

text \<open>
  Six samples with diversity values and metadata, one sample with a diversity value only and
  one with metadata only. The columns follow those the tests use: a two-level column, an
  integer column, a column with a single value, a three-level column; \<open>site\<close> has a level
  of its own for every sample.
\<close>

definition example_data :: "rat series" where
  "example_data = \<lparr> s_index = [''s0'', ''s1'', ''s2'', ''s3'', ''s4'', ''s5'', ''s6''],
                    s_values = [9, 11, 12, 13, 14, 15, 16] \<rparr>"

definition example_metadata :: dataframe where
  "example_metadata =
     \<lparr> df_index = [''s1'', ''s2'', ''s3'', ''s4'', ''s5'', ''s6'', ''s7''],
       df_columns =
         [(''classification'',
             \<lparr> col_dtype = Dtype_object,
               col_values = [Str ''B1'', Str ''B2'', Str ''B1'', Str ''B2'', Str ''B1'', Str ''B2'',
                             Str ''B1''] \<rparr>),
          (''year_diagnosed'',
             \<lparr> col_dtype = Dtype_int64,
               col_values = [Num 2001, Num 2001, Num 2001, Num 2001, Num 2001, Num 2001,
                             Num 2001] \<rparr>),
          (''env_biome'',
             \<lparr> col_dtype = Dtype_object,
               col_values = [Str ''urban biome'', Str ''urban biome'', Str ''urban biome'',
                             Str ''urban biome'', Str ''urban biome'', Str ''urban biome'',
                             Str ''urban biome''] \<rparr>),
          (''cd_behavior'',
             \<lparr> col_dtype = Dtype_object,
               col_values = [Str ''a'', Str ''b'', Str ''c'', Str ''a'', Str ''b'', Str ''c'',
                             Str ''a''] \<rparr>),
          (''site'',
             \<lparr> col_dtype = Dtype_object,
               col_values = [Str ''p'', Str ''q'', Str ''r'', Str ''t'', Str ''u'', Str ''v'',
                             Str ''p''] \<rparr>)] \<rparr>"

definition example_handler :: "rat series handler" where
  "example_handler =
     \<lparr> h_data = \<lparr> s_index = [''s1'', ''s2'', ''s3'', ''s4'', ''s5'', ''s6''],
                    s_values = [11, 12, 13, 14, 15, 16] \<rparr>,
       h_metadata =
         \<lparr> df_index = [''s1'', ''s2'', ''s3'', ''s4'', ''s5'', ''s6''],
           df_columns =
             [(''classification'',
                 \<lparr> col_dtype = Dtype_object,
                   col_values = [Str ''B1'', Str ''B2'', Str ''B1'', Str ''B2'', Str ''B1'',
                                 Str ''B2''] \<rparr>),
              (''year_diagnosed'',
                 \<lparr> col_dtype = Dtype_int64,
                   col_values = [Num 2001, Num 2001, Num 2001, Num 2001, Num 2001, Num 2001] \<rparr>),
              (''env_biome'',
                 \<lparr> col_dtype = Dtype_object,
                   col_values = [Str ''urban biome'', Str ''urban biome'', Str ''urban biome'',
                                 Str ''urban biome'', Str ''urban biome'', Str ''urban biome''] \<rparr>),
              (''cd_behavior'',
                 \<lparr> col_dtype = Dtype_object,
                   col_values = [Str ''a'', Str ''b'', Str ''c'', Str ''a'', Str ''b'', Str ''c''] \<rparr>),
              (''site'',
                 \<lparr> col_dtype = Dtype_object,
                   col_values = [Str ''p'', Str ''q'', Str ''r'', Str ''t'', Str ''u'', Str ''v''] \<rparr>)] \<rparr> \<rparr>"

definition example_beta_handler :: "rat distance_matrix handler" where
  "example_beta_handler =
     \<lparr> h_data = \<lparr> dm_ids = [''s1'', ''s2'', ''s3''],
                    dm_data = [[0, 1, 2],
                               [1, 0, 3],
                               [2, 3, 0]] \<rparr>,
       h_metadata = h_metadata example_handler \<rparr>"

section \<open>Facts about label selection\<close>

lemma rows_of_label:
  "set (map snd (filter (\<lambda>p. fst p = l) (zip idx idx))) = (if l \<in> set idx then {l} else {})"
proof -
  have "set (filter (\<lambda>p. fst p = l) (zip idx idx)) = (if l \<in> set idx then {(l, l)} else {})"
    by (auto simp: zip_same)
  then show ?thesis by (simp add: image_def)
qed

lemma set_take_labels_index:
  "set (take_labels idx labels idx) = set labels \<inter> set idx"
proof -
  have "set (take_labels idx labels idx)
          = (\<Union>l\<in>set labels. set (map snd (filter (\<lambda>p. fst p = l) (zip idx idx))))"
    by (simp add: take_labels_def)
  also have "\<dots> = (\<Union>l\<in>set labels. if l \<in> set idx then {l} else {})"
    by (simp only: rows_of_label)
  also have "\<dots> = set labels \<inter> set idx"
    by auto
  finally show ?thesis .
qed

lemma set_set_intersection: "set (set_intersection a b) = set a \<inter> set b"
  by (auto simp: set_intersection_def)

lemma missing_labels_none: "set labels \<subseteq> set idx \<Longrightarrow> missing_labels idx labels = []"
  by (auto simp: missing_labels_def filter_empty_conv)

text \<open>
  The constructor never raises: every label it looks up is in both indexes, so neither
  \<open>.loc\<close> can fail.
\<close>

lemma init_total:
  "AlphaDiversityHandler_init data metadata =
     Inr \<lparr> h_data =
             \<lparr> s_index = take_labels (s_index data)
                           (set_intersection (df_index metadata) (s_index data)) (s_index data),
               s_values = take_labels (s_index data)
                            (set_intersection (df_index metadata) (s_index data)) (s_values data) \<rparr>,
           h_metadata =
             \<lparr> df_index = take_labels (df_index metadata)
                            (set_intersection (df_index metadata) (s_index data)) (df_index metadata),
               df_columns =
                 map (\<lambda>(name, c). (name, column_loc (df_index metadata)
                                            (set_intersection (df_index metadata) (s_index data)) c))
                     (df_columns metadata) \<rparr> \<rparr>"
  by (simp add: AlphaDiversityHandler_init_def series_loc_def dataframe_loc_def Let_def
      missing_labels_none set_set_intersection)

lemmas eval_defs =
  AlphaDiversityHandler_init_def set_intersection_def series_loc_def dataframe_loc_def
  missing_labels_def take_labels_def column_loc_def incept_power_solve_function_def
  get_column_def unique_def power_analysis_def unexpected_keywords_def
  incept_power_solve_function_params_def Let_def

lemma example_init:
  "AlphaDiversityHandler_init example_data example_metadata = Inr example_handler"
  by (simp add: example_data_def example_metadata_def example_handler_def eval_defs)

section \<open>The handler covers the common samples\<close>

text \<open>
  Claim C5. For every diversity series and metadata table, constructing the handler
  succeeds (no error is raised for samples that only one input has), and afterwards the
  sample ids of the handler's data and of its metadata are the same set: the intersection
  of the ids of the two inputs.
\<close>

theorem init_covers_common_samples:
  "\<exists>h. AlphaDiversityHandler_init data metadata = Inr h
     \<and> set (s_index (h_data h)) = set (s_index data) \<inter> set (df_index metadata)
     \<and> set (df_index (h_metadata h)) = set (s_index data) \<inter> set (df_index metadata)
     \<and> set (samples h) = set (s_index data) \<inter> set (df_index metadata)"
  by (auto simp: init_total samples_def set_take_labels_index set_set_intersection)


theorem init_covers_common_samples_witness:
  "AlphaDiversityHandler_init example_data example_metadata = Inr example_handler
   \<and> set (samples example_handler) = {''s1'', ''s2'', ''s3'', ''s4'', ''s5'', ''s6''}
   \<and> set (s_index example_data) \<inter> set (df_index example_metadata)
       = {''s1'', ''s2'', ''s3'', ''s4'', ''s5'', ''s6''}"
proof -
  have "set (samples example_handler) = {''s1'', ''s2'', ''s3'', ''s4'', ''s5'', ''s6''}"
    by (simp add: samples_def example_handler_def)
  with init_covers_common_samples [of example_data example_metadata] show ?thesis
    by (simp add: example_init)
qed

section \<open>The solver chosen by \<open>_incept_power_solve_function\<close>\<close>

lemma example_classification:
  "get_column (h_metadata example_handler) ''classification''
     = Inr \<lparr> col_dtype = Dtype_object,
             col_values = [Str ''B1'', Str ''B2'', Str ''B1'', Str ''B2'', Str ''B1'', Str ''B2''] \<rparr>"
  by (simp add: example_handler_def get_column_def)


lemma example_year_diagnosed:
  "get_column (h_metadata example_handler) ''year_diagnosed''
     = Inr \<lparr> col_dtype = Dtype_int64,
             col_values = [Num 2001, Num 2001, Num 2001, Num 2001, Num 2001, Num 2001] \<rparr>"
  by (simp add: example_handler_def get_column_def)

lemma example_site:
  "get_column (h_metadata example_handler) ''site''
     = Inr \<lparr> col_dtype = Dtype_object,
             col_values = [Str ''p'', Str ''q'', Str ''r'', Str ''t'', Str ''u'', Str ''v''] \<rparr>"
  by (simp add: example_handler_def get_column_def)

lemmas example_eval =
  example_handler_def incept_power_solve_function_def get_column_def unique_def Let_def

lemmas power_analysis_eval =
  power_analysis_def unexpected_keywords_def incept_power_solve_function_params_def



text \<open>
  Claim C10. The dtype check comes before the count of distinct values: for every column
  whose dtype is not object, \<open>_incept_power_solve_function\<close> raises the error of the dtype
  check whatever the column holds, so the error of the one-value check is never reached
  for such a column, also when it has a single distinct value.
\<close>

theorem dtype_check_precedes_count_check:
  assumes "get_column (h_metadata self) column_name = Inr c"
      and "col_dtype c \<noteq> Dtype_object"
  shows "incept_power_solve_function self column_name total_observations
           = Inl (ValueError ''Column must be of dtype object!'')
       \<and> incept_power_solve_function self column_name total_observations
           \<noteq> Inl (ValueError ''Only one column value!'')"
  using assms by (simp add: incept_power_solve_function_def)

theorem dtype_check_precedes_count_check_witness:
  "length (unique [Num 2001, Num 2001, Num 2001, Num 2001, Num 2001, Num 2001]) = 1
   \<and> incept_power_solve_function example_handler ''year_diagnosed'' None
        = Inl (ValueError ''Column must be of dtype object!'')"
  using dtype_check_precedes_count_check [OF example_year_diagnosed, of None]
  by (simp add: unique_def)

section \<open>What \<open>power_analysis\<close> does with its arguments\<close>

text \<open>
  Claim C1 says that a call with none of \<open>alpha\<close>, \<open>power\<close> and \<open>total_observations\<close>
  left out fails with \<open>WrongPowerArguments\<close> and a message listing the three values. The
  method has no check of these arguments: on the two-level column, with all three supplied,
  the call ends in the \<open>TypeError\<close> of the misspelt keyword, and the function it means to
  call accepts the column and binds the halved count.
\<close>

theorem power_analysis_all_arguments:
  "power_analysis example_handler ''classification'' (Some 40) None (Some 0.05) (Some 0.8)
     = Inl (TypeError (''_incept_power_solve_function() got an unexpected keyword argument ''
                        @ [CHR 0x27] @ ''total_observation'' @ [CHR 0x27]))
   \<and> incept_power_solve_function example_handler ''classification'' (Some 40)
     = Inr (TTIndSolvePower (Some 20) 1)"
  by (simp add: power_analysis_eval example_eval)

text \<open>
  Claim C6 says that \<open>power_analysis\<close> returns the solved value of the argument left out.
  With \<open>total_observations = 40\<close> and \<open>alpha = 0.05\<close>, and with \<open>alpha = 0.05\<close> and
  \<open>power = 0.888241\<close>, on the two-level column, the call returns no value: it ends in the
  \<open>TypeError\<close> of the misspelt keyword.
\<close>

theorem power_analysis_returns_no_scalar:
  "power_analysis example_handler ''classification'' (Some 40) None (Some 0.05) None
     = Inl (TypeError (''_incept_power_solve_function() got an unexpected keyword argument ''
                        @ [CHR 0x27] @ ''total_observation'' @ [CHR 0x27]))
   \<and> power_analysis example_handler ''classification'' None None (Some 0.05) (Some 0.888241)
     = Inl (TypeError (''_incept_power_solve_function() got an unexpected keyword argument ''
                        @ [CHR 0x27] @ ''total_observation'' @ [CHR 0x27]))"
  by (simp add: power_analysis_eval)

section \<open>The errors of column validation\<close>

text \<open>
  Claim C3 says that a column whose dtype is not object fails with
  \<open>NonCategoricalColumnError\<close> and a message naming the column and its dtype. On the
  integer column \<open>year_diagnosed\<close>, \<open>_incept_power_solve_function\<close> raises a \<open>ValueError\<close>
  whose message names neither, and \<open>power_analysis\<close> ends in the \<open>TypeError\<close> of the
  misspelt keyword.
\<close>

theorem non_categorical_column_error:
  "incept_power_solve_function example_handler ''year_diagnosed'' None
     = Inl (ValueError ''Column must be of dtype object!'')
   \<and> power_analysis example_handler ''year_diagnosed'' None None (Some 0.05) (Some 0.8)
     = Inl (TypeError (''_incept_power_solve_function() got an unexpected keyword argument ''
                        @ [CHR 0x27] @ ''total_observation'' @ [CHR 0x27]))"
  by (simp add: power_analysis_eval example_eval)

text \<open>
  Claim C4 says that a categorical column with a single distinct value fails with
  \<open>OnlyOneCategoryError\<close> and a message naming the column and that value. On the column
  \<open>env_biome\<close>, whose only value is \<open>urban biome\<close>, \<open>_incept_power_solve_function\<close> raises a
  \<open>ValueError\<close> whose message names neither, and \<open>power_analysis\<close> ends in the \<open>TypeError\<close>
  of the misspelt keyword.
\<close>

theorem only_one_category_error:
  "incept_power_solve_function example_handler ''env_biome'' None
     = Inl (ValueError ''Only one column value!'')
   \<and> power_analysis example_handler ''env_biome'' None None (Some 0.05) (Some 0.8)
     = Inl (TypeError (''_incept_power_solve_function() got an unexpected keyword argument ''
                        @ [CHR 0x27] @ ''total_observation'' @ [CHR 0x27]))"
  by (simp add: power_analysis_eval example_eval)

section \<open>No threshold on levels or level sizes\<close>

text \<open>
  Claim C7 says that validation fails with \<open>TooManyCategoriesError\<close> when a column has more
  than \<open>max_levels_per_category\<close> distinct values and with the insufficient-sample-size error
  when a level has fewer than \<open>min_count_per_level\<close> samples. As stated it fails on the
  column \<open>site\<close>: six levels, more than the default maximum of five, each with a single
  sample, fewer than the default minimum of three; \<open>_incept_power_solve_function\<close> accepts it
  and returns the ANOVA F solver for six groups.
\<close>

theorem thresholds_not_enforced_counterexample:
  "get_column (h_metadata example_handler) ''site''
     = Inr \<lparr> col_dtype = Dtype_object,
             col_values = [Str ''p'', Str ''q'', Str ''r'', Str ''t'', Str ''u'', Str ''v''] \<rparr>
   \<and> default_max_levels_per_category
       < length (unique [Str ''p'', Str ''q'', Str ''r'', Str ''t'', Str ''u'', Str ''v''])
   \<and> level_count \<lparr> col_dtype = Dtype_object,
                    col_values = [Str ''p'', Str ''q'', Str ''r'', Str ''t'', Str ''u'', Str ''v''] \<rparr>
        (Str ''p'')
       < default_min_count_per_level
   \<and> incept_power_solve_function example_handler ''site'' (Some 60)
       = Inr (FTestAnovaSolvePower 6 (Some 60))"
  by (simp add: example_eval default_max_levels_per_category_def
      default_min_count_per_level_def level_count_def)

text \<open>
  Claim C7, amended. For every object-dtype grouping column that has no missing value and
  at least two distinct values, \<open>_incept_power_solve_function\<close> raises no error, however
  many levels the column has and however few samples a level has: it returns the
  two-sample t solver when there are exactly two distinct values, and otherwise the ANOVA F
  solver with the number of distinct values as \<open>k_groups\<close>.
\<close>

theorem incept_accepts_any_levels_and_level_sizes:
  assumes "get_column (h_metadata self) column_name = Inr c"
      and "col_dtype c = Dtype_object"
      and "NaN \<notin> set (col_values c)"
      and "2 \<le> length (unique (col_values c))"
  shows "incept_power_solve_function self column_name total_observations
           = Inr (if length (unique (col_values c)) = 2
                  then TTIndSolvePower (map_option (\<lambda>n. of_int n / 2) total_observations) 1
                  else FTestAnovaSolvePower (length (unique (col_values c))) total_observations)"
  using assms by (simp add: incept_power_solve_function_def Let_def map_option_case)

theorem incept_accepts_any_levels_and_level_sizes_witness:
  "default_max_levels_per_category
     < length (unique [Str ''p'', Str ''q'', Str ''r'', Str ''t'', Str ''u'', Str ''v''])
   \<and> incept_power_solve_function example_handler ''site'' None
       = Inr (FTestAnovaSolvePower 6 None)
   \<and> level_count \<lparr> col_dtype = Dtype_object,
                    col_values = [Str ''B1'', Str ''B2'', Str ''B1'', Str ''B2'', Str ''B1'',
                                  Str ''B2''] \<rparr>
        (Str ''B1'')
       = default_min_count_per_level
   \<and> incept_power_solve_function example_handler ''classification'' (Some 40)
       = Inr (TTIndSolvePower (Some 20) 1)"
  using incept_accepts_any_levels_and_level_sizes [OF example_site, of None]
        incept_accepts_any_levels_and_level_sizes [OF example_classification, of "Some 40"]
  by (simp add: unique_def default_max_levels_per_category_def
      default_min_count_per_level_def level_count_def)

section \<open>Subsetting the diversity values\<close>

lemma subset_values_no_common:
  assumes "set sample_ids \<inter> set (s_index (h_data self)) = {}"
  shows "subset_values self sample_ids = Inl NoSamplesError"
proof -
  have "filter (\<lambda>p. fst p \<in> set sample_ids)
          (zip (s_index (h_data self)) (s_values (h_data self))) = []"
    using assms by (auto simp: filter_empty_conv dest: set_zip_leftD)
  then show ?thesis by (simp add: subset_values_def)
qed

text \<open>
  Claim C8. For every handler built by the constructor and every list of sample ids that
  has no id in common with the handler's samples, \<open>subset_values\<close> fails with
  \<open>NoSamplesError\<close>; it does not return an empty series.
\<close>

theorem subset_values_disjoint:
  assumes "AlphaDiversityHandler_init data metadata = Inr h"
      and "set sample_ids \<inter> set (samples h) = {}"
  shows "subset_values h sample_ids = Inl NoSamplesError"
proof -
  from assms(1) have "set (s_index (h_data h)) = set (samples h)"
    by (auto simp: init_total samples_def set_take_labels_index set_set_intersection)
  with assms(2) show ?thesis by (simp add: subset_values_no_common)
qed

theorem subset_values_disjoint_witness:
  "set [''s0'', ''s7'', ''s9''] \<inter> set (samples example_handler) = {}
   \<and> subset_values example_handler [''s0'', ''s7'', ''s9''] = Inl NoSamplesError"
proof -
  have d: "set [''s0'', ''s7'', ''s9''] \<inter> set (samples example_handler) = {}"
    by (simp add: samples_def example_handler_def)
  from subset_values_disjoint [OF example_init d] d show ?thesis by simp
qed

section \<open>Subsetting a distance matrix\<close>

lemma kept_ids:
  "map (\<lambda>i. ids ! i) (kept_positions ids sample_ids) = filter (\<lambda>s. s \<in> set sample_ids) ids"
proof -
  have "filter (\<lambda>s. s \<in> set sample_ids) (map (\<lambda>i. ids ! i) [0..<length ids])
          = map (\<lambda>i. ids ! i) (kept_positions ids sample_ids)"
    by (simp add: kept_positions_def filter_map comp_def)
  then show ?thesis by (simp add: map_nth)
qed

lemma kept_positions_bound:
  "a < length (kept_positions ids sample_ids) \<Longrightarrow> kept_positions ids sample_ids ! a < length ids"
proof -
  assume "a < length (kept_positions ids sample_ids)"
  then have "kept_positions ids sample_ids ! a \<in> set (kept_positions ids sample_ids)"
    by (rule nth_mem)
  then show ?thesis by (simp add: kept_positions_def)
qed

lemma kept_positions_Nil:
  "kept_positions ids sample_ids = [] \<longleftrightarrow> set sample_ids \<inter> set ids = {}"
proof -
  have "kept_positions ids sample_ids = []
          \<longleftrightarrow> map (\<lambda>i. ids ! i) (kept_positions ids sample_ids) = []"
    by simp
  also have "\<dots> \<longleftrightarrow> set sample_ids \<inter> set ids = {}"
    unfolding kept_ids by (auto simp: filter_empty_conv)
  finally show ?thesis .
qed

lemma symmetric_iff:
  "symmetric dm \<longleftrightarrow>
     (\<forall>i<length (dm_ids dm). \<forall>j<length (dm_ids dm). dm_data dm ! i ! j = dm_data dm ! j ! i)"
  by (auto simp: symmetric_def list_all_iff)

text \<open>
  Claim C9. For the beta-diversity handler and every list of sample ids that has an id in
  common with the matrix, subsetting succeeds; the ids of the result are the ids of the
  matrix that are in the list, the result has one row and one column for each of them (both
  axes are cut down to the same ids), and the result is symmetric whenever the matrix is.
\<close>

theorem beta_subset_keeps_symmetry:
  assumes "set sample_ids \<inter> set (dm_ids (h_data self)) \<noteq> {}"
  shows "\<exists>sub. beta_subset_values self sample_ids = Inr sub
           \<and> dm_ids sub = filter (\<lambda>s. s \<in> set sample_ids) (dm_ids (h_data self))
           \<and> square sub
           \<and> (symmetric (h_data self) \<longrightarrow> symmetric sub)"
proof -
  define ps where "ps = kept_positions (dm_ids (h_data self)) sample_ids"
  define sub where "sub = \<lparr> dm_ids = map (\<lambda>i. dm_ids (h_data self) ! i) ps,
                            dm_data = map (\<lambda>i. map (\<lambda>j. dm_data (h_data self) ! i ! j) ps) ps \<rparr>"
  from assms have "ps \<noteq> []" by (simp add: ps_def kept_positions_Nil)
  then have res: "beta_subset_values self sample_ids = Inr sub"
    by (simp add: beta_subset_values_def Let_def ps_def sub_def)
  have ids: "dm_ids sub = filter (\<lambda>s. s \<in> set sample_ids) (dm_ids (h_data self))"
    by (simp add: sub_def ps_def kept_ids)
  have sq: "square sub"
    by (simp add: square_def sub_def list_all_iff)
  have sym: "symmetric sub" if s: "symmetric (h_data self)"
  proof -
    have "dm_data sub ! a ! b = dm_data sub ! b ! a"
      if "a < length ps" "b < length ps" for a b
    proof -
      from that have "ps ! a < length (dm_ids (h_data self))"
        and "ps ! b < length (dm_ids (h_data self))"
        by (simp_all add: ps_def kept_positions_bound)
      with s have "dm_data (h_data self) ! (ps ! a) ! (ps ! b)
                     = dm_data (h_data self) ! (ps ! b) ! (ps ! a)"
        by (simp add: symmetric_iff)
      with that show ?thesis by (simp add: sub_def)
    qed
    then show ?thesis by (simp add: symmetric_iff sub_def)
  qed
  from res ids sq sym show ?thesis by blast
qed

theorem beta_subset_keeps_symmetry_witness:
  "symmetric (h_data example_beta_handler)
   \<and> beta_subset_values example_beta_handler [''s1'', ''s3'', ''s9'']
       = Inr \<lparr> dm_ids = [''s1'', ''s3''], dm_data = [[0, 2], [2, 0]] \<rparr>
   \<and> symmetric \<lparr> dm_ids = [''s1'', ''s3''], dm_data = [[0, 2], [2, 0::rat]] \<rparr>"
proof -
  have ne: "set [''s1'', ''s3'', ''s9''] \<inter> set (dm_ids (h_data example_beta_handler)) \<noteq> {}"
    by (simp add: example_beta_handler_def)
  have s: "symmetric (h_data example_beta_handler)"
    by (simp add: example_beta_handler_def symmetric_def
        upt_rec [of _ "numeral n" for n] upt_rec [of _ "Suc n" for n])
  have r: "beta_subset_values example_beta_handler [''s1'', ''s3'', ''s9'']
             = Inr \<lparr> dm_ids = [''s1'', ''s3''], dm_data = [[0, 2], [2, 0]] \<rparr>"
    by (simp add: example_beta_handler_def beta_subset_values_def kept_positions_def Let_def
        upt_rec [of _ "numeral n" for n] upt_rec [of _ "Suc n" for n])
  from beta_subset_keeps_symmetry [OF ne] s r show ?thesis by auto
qed

end
